theory Spec2Isabelle
  imports Main "HOL-Library.Word"
begin

unbundle bit_operations_syntax

section \<open>The node value type (\<^verbatim>\<open>node_pool.hpp\<close>)\<close>

text \<open>
  \<^verbatim>\<open>node_t<int>\<close> holds a \<^verbatim>\<open>std::array<int, 8>\<close>. A slot is a 32-bit
  two's-complement integer: it is kept as its bit pattern, \<open>sint\<close> reads its value, and
  the \<^verbatim>\<open>reinterpret_cast\<close> to \<^verbatim>\<open>uint32_t\<close> of the hash is the identity on
  such patterns. An array of exactly eight slots is a constructor with eight arguments,
  so every value of the type is a node and there is no ninth slot.
\<close>

type_synonym int32 = "32 word"
type_synonym uint32_t = "32 word"
type_synonym uint64_t = "64 word"
type_synonym size_t = "64 word"

datatype node_t = Node int32 int32 int32 int32 int32 int32 int32 int32

text \<open>The member \<^verbatim>\<open>children\<close>, in slot order (also \<^verbatim>\<open>value()\<close> without an index).\<close>

fun children :: "node_t \<Rightarrow> int32 list" where
  "children (Node a b c d e f g h) = [a, b, c, d, e, f, g, h]"

text \<open>
  \<^verbatim>\<open>has_value\<close>: the range-for over the slots returns at the first slot that differs
  from \<^verbatim>\<open>T()\<close>, which is 0 for \<^verbatim>\<open>int\<close>.
\<close>

fun has_value_loop :: "int32 list \<Rightarrow> bool" where
  "has_value_loop [] = False"
| "has_value_loop (child # rest) = (if child \<noteq> 0 then True else has_value_loop rest)"

definition has_value :: "node_t \<Rightarrow> bool" where
  "has_value n = has_value_loop (children n)"

text \<open>\<^verbatim>\<open>operator bool\<close> returns \<^verbatim>\<open>has_value()\<close>.\<close>

definition to_bool :: "node_t \<Rightarrow> bool" where
  "to_bool n = has_value n"

text \<open>
  \<^verbatim>\<open>operator==\<close> is \<^verbatim>\<open>children == r.children\<close>: the element-wise comparison of
  two arrays, written out as the loop it is.
\<close>

fun array_eq :: "int32 list \<Rightarrow> int32 list \<Rightarrow> bool" where
  "array_eq [] [] = True"
| "array_eq (x # xs) (y # ys) = (if x = y then array_eq xs ys else False)"
| "array_eq _ _ = False"

definition node_eq :: "node_t \<Rightarrow> node_t \<Rightarrow> bool" where
  "node_eq l r = array_eq (children l) (children r)"

definition node_neq :: "node_t \<Rightarrow> node_t \<Rightarrow> bool" where
  "node_neq l r = (\<not> node_eq l r)"

text \<open>
  \<^verbatim>\<open>value(index)\<close>: the slot when \<^verbatim>\<open>index < children.size()\<close>, otherwise the
  exception \<^verbatim>\<open>std::out_of_range\<close>. The index is a \<^verbatim>\<open>size_t\<close>.
\<close>

datatype exn = Out_of_range

definition value_at :: "node_t \<Rightarrow> size_t \<Rightarrow> exn + int32" where
  "value_at n index =
     (if unat index < length (children n) then Inr (children n ! unat index)
      else Inl Out_of_range)"

text \<open>
  \<^verbatim>\<open>null()\<close> returns a default-constructed node; the member initialiser
  \<^verbatim>\<open>children = {0}\<close> sets the first slot to 0 and value-initialises the other seven.
\<close>

definition null :: node_t where
  "null = Node 0 0 0 0 0 0 0 0"

section \<open>The structural hash\<close>

text \<open>
  \<^verbatim>\<open>murmur_hasher32_t::operator()(std::span<const uint32_t>)\<close>: one round per word of
  the span, then the finaliser, which mixes in the number of words of the span.
  All arithmetic is on \<^verbatim>\<open>uint32_t\<close> and wraps.
\<close>

definition murmur_round :: "uint32_t \<Rightarrow> uint32_t \<Rightarrow> uint32_t" where
  "murmur_round h k0 =
     (let k1 = k0 * 0xcc9e2d51;
          k2 = push_bit 15 k1 OR drop_bit 17 k1;
          k3 = k2 * 0x1b873593;
          h1 = h XOR k3;
          h2 = push_bit 13 h1 OR drop_bit 19 h1
      in h2 * 5 + 0xe6546b64)"

fun murmur_loop :: "uint32_t \<Rightarrow> uint32_t list \<Rightarrow> uint32_t" where
  "murmur_loop h [] = h"
| "murmur_loop h (k # ks) = murmur_loop (murmur_round h k) ks"

definition murmur_hasher32 :: "uint32_t list \<Rightarrow> uint32_t" where
  "murmur_hasher32 word_span =
     (let h0 = murmur_loop 0 word_span;
          h1 = h0 XOR word_of_nat (length word_span);
          h2 = h1 XOR drop_bit 16 h1;
          h3 = h2 * 0x85ebca6b;
          h4 = h3 XOR drop_bit 13 h3;
          h5 = h4 * 0xc2b2ae35
      in h5 XOR drop_bit 16 h5)"

text \<open>
  \<^verbatim>\<open>std::hash<node_t<int>>\<close>: the span over the eight slots has dynamic extent, so the
  call selects the overload above; its \<^verbatim>\<open>uint32_t\<close> result is widened to
  \<^verbatim>\<open>size_t\<close>.
\<close>

definition hash :: "node_t \<Rightarrow> size_t" where
  "hash v = ucast (murmur_hasher32 (children v))"

subsection \<open>The hash as the specification words it\<close>

text \<open>
  The schedule of the specification, with \<open>rotl32\<close> as the rotation of a 32-bit word:
  seed 0, one mixing step per slot in slot order, and the finaliser starting with
  \<open>h ^= 8\<close>.
\<close>

definition rotl32 :: "uint32_t \<Rightarrow> nat \<Rightarrow> uint32_t" where
  "rotl32 x r = word_rotl r x"

definition spec_mix :: "uint32_t \<Rightarrow> uint32_t \<Rightarrow> uint32_t" where
  "spec_mix h k = rotl32 (h XOR (rotl32 (k * 0xcc9e2d51) 15 * 0x1b873593)) 13 * 5 + 0xe6546b64"

definition spec_finalise :: "uint32_t \<Rightarrow> uint32_t" where
  "spec_finalise h =
     (let a = h XOR 8;
          b = a XOR drop_bit 16 a;
          c = b * 0x85ebca6b;
          d = c XOR drop_bit 13 c;
          e = d * 0xc2b2ae35
      in e XOR drop_bit 16 e)"

definition spec_hash :: "node_t \<Rightarrow> uint32_t" where
  "spec_hash n = spec_finalise (foldl spec_mix 0 (children n))"


section \<open>The scene accessors (\<^verbatim>\<open>scene.hpp\<close>)\<close>

text \<open>
  A \<^verbatim>\<open>float\<close> is kept as its 32-bit pattern: the accessors below move vertices
  around and never compute with them.
\<close>

type_synonym float = "32 word"

datatype vec3 = Vec3 float float float

record indexed_tri_t =
  vertices_idx :: "size_t \<times> size_t \<times> size_t"
  tex_coord_idx :: "size_t \<times> size_t \<times> size_t"
  normals_idx :: "size_t \<times> size_t \<times> size_t"
  material_idx :: size_t

text \<open>Of \<^verbatim>\<open>material_t\<close> the two strings are read below; its colours are not.\<close>

record material_t =
  name :: string
  texture :: string

text \<open>
  The members of \<^verbatim>\<open>scene\<close> that the functions below read. \<open>m_textures\<close> is the
  key set of the texture map, in insertion order; the decoded images are external.
\<close>

record scene =
  m_materials :: "material_t list"
  m_indexed_tris :: "indexed_tri_t list"
  m_triangles :: "vec3 list"
  m_textures :: "string list"

definition get_triangles_count :: "scene \<Rightarrow> nat" where
  "get_triangles_count s =
     (if m_indexed_tris s \<noteq> [] then length (m_indexed_tris s) else length (m_triangles s))"

definition get_raw_triangles_count :: "scene \<Rightarrow> nat" where
  "get_raw_triangles_count s = length (m_triangles s) div 3"

text \<open>
  \<^verbatim>\<open>get_triangle(id)\<close>: \<^verbatim>\<open>id * 3\<close> is computed on \<^verbatim>\<open>size_t\<close> and wraps.
  The result is \<^verbatim>\<open>std::nullopt\<close> when that offset is not below
  \<^verbatim>\<open>m_triangles.size()\<close>, and otherwise a span of three elements starting at the
  offset. The span is modelled by the three elements it views; when fewer than three
  elements remain after the offset it extends past the end of the vector, which is
  undefined behaviour.
\<close>

datatype undefined_behaviour = Span_past_end

definition get_triangle :: "scene \<Rightarrow> size_t \<Rightarrow> undefined_behaviour + (vec3 \<times> vec3 \<times> vec3) option" where
  "get_triangle s ident =
     (let off = unat (ident * 3); t = m_triangles s
      in if off \<ge> length t then Inr None
         else if off + 3 \<le> length t then Inr (Some (t ! off, t ! (off + 1), t ! (off + 2)))
         else Inl Span_past_end)"

text \<open>
  \<^verbatim>\<open>load_textures(path)\<close>: the first material is skipped; for every other material
  whose texture name is longer than three characters and not loaded yet, the image is
  decoded by the \<^verbatim>\<open>CImg\<close> constructor and stored under the name. The decoder is
  external: \<open>decode n\<close> says whether it returns for the texture named \<open>n\<close> under the
  given path (it throws otherwise). The loop state is \<open>matIndex\<close> and the loaded
  names; the result is \<open>None\<close> when the decoder threw, and otherwise the return value
  (\<^verbatim>\<open>matIndex != -1\<close>) with the loaded names.
\<close>

fun load_textures_loop ::
  "(string \<Rightarrow> bool) \<Rightarrow> int \<Rightarrow> string list \<Rightarrow> material_t list \<Rightarrow> (int \<times> string list) option" where
  "load_textures_loop decode matIndex loaded [] = Some (matIndex, loaded)"
| "load_textures_loop decode matIndex loaded (material # rest) =
     (let matIndex' = matIndex + 1 in
      if matIndex' = 0 then load_textures_loop decode matIndex' loaded rest
      else let texName = texture material in
        if length texName > 3 \<and> texName \<notin> set loaded then
          (if decode texName then load_textures_loop decode matIndex' (loaded @ [texName]) rest
           else None)
        else load_textures_loop decode matIndex' loaded rest)"

definition load_textures :: "(string \<Rightarrow> bool) \<Rightarrow> scene \<Rightarrow> (bool \<times> scene) option" where
  "load_textures decode s =
     (case load_textures_loop decode (- 1) (m_textures s) (m_materials s) of
        None \<Rightarrow> None
      | Some (matIndex, loaded) \<Rightarrow>
          Some (if matIndex = - 1 then False else True, s\<lparr>m_textures := loaded\<rparr>))"

section \<open>The binary arena file\<close>

text \<open>
  The writer of \<^verbatim>\<open>dag_node_pool::create\<close> dumps the object representation of a
  \<^verbatim>\<open>size_t\<close> and of the node vector. A \<^verbatim>\<open>size_t\<close> is eight bytes, an
  \<^verbatim>\<open>int\<close> four, and a \<^verbatim>\<open>node_t<int>\<close> is its array of eight, 32 bytes; the
  order of the bytes of an integer is the host's, a parameter here.
\<close>

type_synonym byte = "8 word"

datatype endianness = Little_endian | Big_endian

definition bytes_of_u32 :: "endianness \<Rightarrow> uint32_t \<Rightarrow> byte list" where
  "bytes_of_u32 e w =
     (let le = [ucast w, ucast (drop_bit 8 w), ucast (drop_bit 16 w), ucast (drop_bit 24 w)]
      in case e of Little_endian \<Rightarrow> le | Big_endian \<Rightarrow> rev le)"

definition bytes_of_u64 :: "endianness \<Rightarrow> uint64_t \<Rightarrow> byte list" where
  "bytes_of_u64 e w =
     (let le = [ucast w, ucast (drop_bit 8 w), ucast (drop_bit 16 w), ucast (drop_bit 24 w),
                ucast (drop_bit 32 w), ucast (drop_bit 40 w), ucast (drop_bit 48 w),
                ucast (drop_bit 56 w)]
      in case e of Little_endian \<Rightarrow> le | Big_endian \<Rightarrow> rev le)"

definition bytes_of_node :: "endianness \<Rightarrow> node_t \<Rightarrow> byte list" where
  "bytes_of_node e n = concat (map (bytes_of_u32 e) (children n))"

text \<open>
  The two \<^verbatim>\<open>write\<close> calls: \<^verbatim>\<open>sizeof(voxel_count)\<close> bytes of the count, then
  \<^verbatim>\<open>voxel_count * sizeof(node_t<int>)\<close> bytes of the vector's storage.
\<close>

definition serialize :: "endianness \<Rightarrow> node_t list \<Rightarrow> byte list" where
  "serialize e nodes =
     bytes_of_u64 e (word_of_nat (length nodes)) @ concat (map (bytes_of_node e) nodes)"

section \<open>The command-line tool (\<^verbatim>\<open>main.cpp\<close>)\<close>

text \<open>
  What the tool reaches outside the files at hand is a parameter of the model:
  \<^item> \<open>host\<close>: the byte order of the machine;
  \<^item> \<open>scene_load\<close>: \<^verbatim>\<open>scene::load\<close> (defined in the library), \<open>None\<close> when it
    returns false, otherwise the loaded scene;
  \<^item> \<open>image_decodes\<close>: whether the image decoder returns for a texture of a scene file;
  \<^item> \<open>builder\<close>: \<^verbatim>\<open>node_pool_builder::build\<close> (defined in the library) on a scene and
    a depth: the nodes of the pool afterwards, or \<open>None\<close> when it does not return but
    throws. The corner and the size passed to it are computed from the scene's bounds.
  \<^item> \<open>out_opens\<close>: whether the output stream opens on a path.
\<close>

record env =
  host :: endianness
  scene_load :: "string \<Rightarrow> scene option"
  image_decodes :: "string \<Rightarrow> string \<Rightarrow> bool"
  builder :: "scene \<Rightarrow> int \<Rightarrow> node_t list option"
  out_opens :: "string \<Rightarrow> bool"

text \<open>
  \<^verbatim>\<open>std::atoi\<close> is \<^verbatim>\<open>(int) strtol(s, NULL, 10)\<close> in the C library of the
  target (glibc, where \<^verbatim>\<open>long\<close> has 64 bits and \<^verbatim>\<open>int\<close> 32). \<^verbatim>\<open>strtol\<close> skips
  white space, reads an optional sign and then decimal digits up to the first other
  character, gives 0 when there is no digit, and saturates at the bounds of
  \<^verbatim>\<open>long\<close>; the conversion to \<^verbatim>\<open>int\<close> keeps the low 32 bits.
\<close>

definition isspace :: "char \<Rightarrow> bool" where
  "isspace c = (c \<in> {CHR '' '', CHR 0x09, CHR 0x0A, CHR 0x0B, CHR 0x0C, CHR 0x0D})"

definition isdigit :: "char \<Rightarrow> bool" where
  "isdigit c = (48 \<le> (of_char c :: nat) \<and> (of_char c :: nat) \<le> 57)"

fun atoi_digits :: "int \<Rightarrow> string \<Rightarrow> int" where
  "atoi_digits acc [] = acc"
| "atoi_digits acc (c # cs) =
     (if isdigit c then atoi_digits (acc * 10 + (of_char c - 48)) cs else acc)"

definition strtol :: "string \<Rightarrow> int" where
  "strtol s =
     (let n = (case dropWhile isspace s of
                 [] \<Rightarrow> 0
               | c # cs \<Rightarrow>
                   if c = CHR ''-'' then - atoi_digits 0 cs
                   else if c = CHR ''+'' then atoi_digits 0 cs
                   else atoi_digits 0 (c # cs))
      in if n > 2 ^ 63 - 1 then 2 ^ 63 - 1 else if n < - (2 ^ 63) then - (2 ^ 63) else n)"

definition atoi :: "string \<Rightarrow> int32" where
  "atoi s = word_of_int (strtol s)"

text \<open>
  \<^verbatim>\<open>dag_node_pool::create(filename, out_filename, depth)\<close> with
  \<^verbatim>\<open>uint8_t depth\<close>. The result is \<open>None\<close> when an exception leaves the function,
  otherwise the returned \<^verbatim>\<open>bool\<close> and the file written, if any. A failed
  \<^verbatim>\<open>load_textures\<close> and a stream that does not open are only logged.
\<close>

definition create ::
  "env \<Rightarrow> string \<Rightarrow> string \<Rightarrow> 8 word \<Rightarrow> (bool \<times> (string \<times> byte list) option) option" where
  "create w filename out_filename depth =
     (case scene_load w filename of
        None \<Rightarrow> Some (False, None)
      | Some sc \<Rightarrow>
          (case load_textures (image_decodes w filename) sc of
             None \<Rightarrow> None
           | Some (_, sc') \<Rightarrow>
               (case builder w sc' (uint depth) of
                  None \<Rightarrow> None
                | Some nodes \<Rightarrow>
                    if out_opens w out_filename
                    then Some (True, Some (out_filename, serialize (host w) nodes))
                    else Some (True, None))))"

text \<open>
  \<^verbatim>\<open>main\<close>: \<open>argv\<close> is the argument vector and \<open>argc\<close> its length. The
  \<^verbatim>\<open>int\<close> read by \<^verbatim>\<open>atoi\<close> is converted to the \<^verbatim>\<open>uint8_t\<close> parameter of
  \<^verbatim>\<open>create\<close>, which keeps its low eight bits. An exception that nothing catches ends the process through
  \<^verbatim>\<open>std::terminate\<close>, not through an exit code of \<^verbatim>\<open>main\<close>.
\<close>

datatype outcome = Exit int | Terminate

definition main :: "env \<Rightarrow> string list \<Rightarrow> outcome \<times> (string \<times> byte list) option" where
  "main w argv =
     (if length argv < 4 then (Exit 1, None)
      else
        let filename = argv ! 1; out_filename = argv ! 2; depth = atoi (argv ! 3)
        in case create w filename out_filename (ucast depth) of
             None \<Rightarrow> (Terminate, None)
           | Some (ok, written) \<Rightarrow> if \<not> ok then (Exit 1, written) else (Exit 0, written))"


section \<open>Operations of the pool that are defined in the library\<close>

text \<open>
  \<^verbatim>\<open>node_pool\<close> has the one data member \<^verbatim>\<open>m_nodes\<close>, so a pool is the list of its
  nodes. The headers declare the operations below; their bodies are in the compiled
  library and are modelled from the specification.

  The specification leaves open whether the indices of an arena start at 0 or at 1
  (``1-based is permitted; the implementation must be internally consistent''). The
  models take the first index as the parameter \<open>base\<close>: the node at position \<open>k\<close> of
  the vector has the index \<open>k + base\<close>, in slots, in arguments and in results alike.
\<close>

type_synonym node_pool = "node_t list"

datatype error = IndexOutOfRange | NotFound | CorruptArena


text \<open>
  Modelled from the spec: no code of the arena's \<open>append\<close> is at hand. The
  specification's \<open>append(node)\<close> puts the node at the end and returns its index.
\<close>

definition append :: "nat \<Rightarrow> node_pool \<Rightarrow> node_t \<Rightarrow> nat \<times> node_pool" where
  "append base nodes n = (length nodes + base, nodes @ [n])"

fun map_node :: "(int32 \<Rightarrow> int32) \<Rightarrow> node_t \<Rightarrow> node_t" where
  "map_node f (Node a b c d e g h i) = Node (f a) (f b) (f c) (f d) (f e) (f g) (f h) (f i)"


text \<open>A slot is positive when its value as a signed integer is above 0.\<close>

definition positive :: "int32 \<Rightarrow> bool" where
  "positive v = (0 < sint v)"

subsection \<open>Reading the binary arena file\<close>

definition u32_of_bytes :: "endianness \<Rightarrow> byte list \<Rightarrow> uint32_t" where
  "u32_of_bytes e bs =
     foldr (\<lambda>b acc. ucast b OR push_bit 8 acc)
       (case e of Little_endian \<Rightarrow> bs | Big_endian \<Rightarrow> rev bs) 0"

definition u64_of_bytes :: "endianness \<Rightarrow> byte list \<Rightarrow> uint64_t" where
  "u64_of_bytes e bs =
     foldr (\<lambda>b acc. ucast b OR push_bit 8 acc)
       (case e of Little_endian \<Rightarrow> bs | Big_endian \<Rightarrow> rev bs) 0"

definition node_of_bytes :: "endianness \<Rightarrow> byte list \<Rightarrow> node_t" where
  "node_of_bytes e bs =
     (let slot = (\<lambda>k. u32_of_bytes e (take 4 (drop (4 * k) bs)))
      in Node (slot 0) (slot 1) (slot 2) (slot 3) (slot 4) (slot 5) (slot 6) (slot 7))"

fun read_nodes :: "endianness \<Rightarrow> nat \<Rightarrow> byte list \<Rightarrow> node_t list" where
  "read_nodes e 0 bs = []"
| "read_nodes e (Suc k) bs = node_of_bytes e (take 32 bs) # read_nodes e k (drop 32 bs)"

definition slots_in_range :: "nat \<Rightarrow> node_t list \<Rightarrow> bool" where
  "slots_in_range count nodes =
     list_all (\<lambda>n. list_all (\<lambda>v. if positive v then sint v < int count else True) (children n))
       nodes"

text \<open>
  Modelled from the spec: the body of \<^verbatim>\<open>node_pool::deserialize\<close> is missing; the file
  is given by its bytes, and the result is the new content of the pool. The
  specification has the reader take the count from offset 0 and the node records after
  it, reject a file whose size is not the one computed from the count (a count that
  exceeds the payload included), and reject a positive slot that is not strictly less
  than the count.
\<close>

definition deserialize :: "endianness \<Rightarrow> byte list \<Rightarrow> error + node_pool" where
  "deserialize e file =
     (if length file < 8 then Inl CorruptArena
      else
        let count = unat (u64_of_bytes e (take 8 file))
        in if length file \<noteq> 8 + 32 * count then Inl CorruptArena
           else
             let nodes = read_nodes e count (drop 8 file)
             in if slots_in_range count nodes then Inr nodes else Inl CorruptArena)"

subsection \<open>Shifting and compression\<close>

text \<open>
  Modelled from the spec: the body of \<^verbatim>\<open>node_pool::shift_indexes\<close> is missing. It
  adds the offset to every positive slot of every node and leaves the others.
\<close>

definition shift_indexes :: "int32 \<Rightarrow> node_pool \<Rightarrow> node_pool" where
  "shift_indexes delta nodes = map (map_node (\<lambda>v. if positive v then v + delta else v)) nodes"

text \<open>
  Modelled from the spec: the body of \<^verbatim>\<open>node_pool::compress\<close> is missing, and this
  is the rewriting of one slot in it. A positive slot is rewritten through the mapping
  from old to new indices; as the specification does not say what becomes of a slot
  that has no entry yet, such a slot is kept.
\<close>

definition rewrite_slot :: "(nat \<rightharpoonup> nat) \<Rightarrow> int32 \<Rightarrow> int32" where
  "rewrite_slot remap v =
     (if positive v then (case remap (nat (sint v)) of Some j \<Rightarrow> word_of_nat j | None \<Rightarrow> v)
      else v)"

text \<open>
  Modelled from the spec: the body of \<^verbatim>\<open>node_pool::compress\<close> is missing, and this
  is its loop. The specification walks the nodes from low index to high with the
  mapping from old to new indices and a table from node contents to new indices. The
  positive slots of a node are rewritten through the mapping. A rewritten node that is
  in the table maps its old index to the table's entry; otherwise a copy is appended
  and entered. The table is keyed by \<^verbatim>\<open>operator==\<close> on nodes, which is equality of
  the eight slots.
\<close>

fun compress_loop ::
  "nat \<Rightarrow> nat \<Rightarrow> node_t list \<Rightarrow> (nat \<rightharpoonup> nat) \<Rightarrow> (node_t \<rightharpoonup> nat) \<Rightarrow> node_pool \<Rightarrow> node_pool" where
  "compress_loop base i [] remap table out = out"
| "compress_loop base i (n # rest) remap table out =
     (let n' = map_node (rewrite_slot remap) n in
      case table n' of
        Some j \<Rightarrow> compress_loop base (i + 1) rest (remap(i + base \<mapsto> j)) table out
      | None \<Rightarrow>
          let (j, out') = append base out n'
          in compress_loop base (i + 1) rest (remap(i + base \<mapsto> j)) (table(n' \<mapsto> j)) out')"

text \<open>
  Modelled from the spec: the body of \<^verbatim>\<open>node_pool::compress\<close> is missing. It runs
  the loop above from the first node with an empty mapping, an empty table and an
  empty new arena, which becomes the content of the pool. (The pool as declared has no
  member for a root index.)
\<close>

definition compress :: "nat \<Rightarrow> node_pool \<Rightarrow> node_pool" where
  "compress base nodes = compress_loop base 0 nodes Map.empty Map.empty []"

subsection \<open>The editor (\<^verbatim>\<open>node_pool_editor.hpp\<close>)\<close>

text \<open>
  Modelled from the spec: the body of \<^verbatim>\<open>node_pool_editor::combine\<close> is missing. It
  shifts a copy of the other pool by the size of this one, appends it, fuses
  recursively from the two roots, and compresses when \<open>recompress\<close> is set. The
  recursive step (\<^verbatim>\<open>recursive_combine\<close>) is private, and the specification does not
  fix it to the node; it is the parameter \<open>fuse\<close>, given the flag, the number of nodes
  this pool had (which locates both roots) and the joined arena.
\<close>

definition combine ::
  "nat \<Rightarrow> (bool \<Rightarrow> nat \<Rightarrow> node_pool \<Rightarrow> node_pool) \<Rightarrow>
     node_pool \<Rightarrow> node_pool \<Rightarrow> bool \<Rightarrow> bool \<Rightarrow> node_pool" where
  "combine base fuse self other overwrite recompress =
     (let shifted = shift_indexes (word_of_nat (length self)) other;
          joined = self @ shifted;
          fused = fuse overwrite (length self) joined
      in if recompress then compress base fused else fused)"

text \<open>
  Modelled from the spec: the body of \<^verbatim>\<open>node_pool_editor::subtract\<close> is missing. It
  shifts and appends as \<open>combine\<close> does, recurses (\<^verbatim>\<open>recursive_subtract\<close>, private,
  the parameter \<open>fuse\<close> here), and compresses when \<open>recompress\<close> is set.
\<close>

definition subtract ::
  "nat \<Rightarrow> (nat \<Rightarrow> node_pool \<Rightarrow> node_pool) \<Rightarrow> node_pool \<Rightarrow> node_pool \<Rightarrow> bool \<Rightarrow> node_pool" where
  "subtract base fuse self other recompress =
     (let shifted = shift_indexes (word_of_nat (length self)) other;
          joined = self @ shifted;
          cut = fuse (length self) joined
      in if recompress then compress base cut else cut)"

text \<open>
  The declarations \<^verbatim>\<open>void combine(node_pool other, bool overwrite, bool recompress)\<close>
  and \<^verbatim>\<open>void subtract(node_pool other, bool recompress)\<close> take the other pool by
  value. The pools of a program live in a heap, addressed by number. A call
  copy-constructs the parameter from the caller's pool (\<^verbatim>\<open>node_pool\<close> declares its
  destructor and so has no move constructor: also an rvalue argument is copied), runs
  the body on the receiver and on the parameter, stores the receiver and destroys the
  parameter. The body is whatever the library does with the two objects it can reach:
  a function from their contents to their contents.
\<close>

type_synonym heap = "nat \<Rightarrow> node_pool"

definition combine_call ::
  "(node_pool \<Rightarrow> node_pool \<Rightarrow> bool \<Rightarrow> bool \<Rightarrow> node_pool \<times> node_pool) \<Rightarrow>
     heap \<Rightarrow> nat \<Rightarrow> nat \<Rightarrow> bool \<Rightarrow> bool \<Rightarrow> heap" where
  "combine_call body h self other overwrite recompress =
     (let param = h other;
          (self', param') = body (h self) param overwrite recompress
      in h(self := self'))"

definition subtract_call ::
  "(node_pool \<Rightarrow> node_pool \<Rightarrow> bool \<Rightarrow> node_pool \<times> node_pool) \<Rightarrow>
     heap \<Rightarrow> nat \<Rightarrow> nat \<Rightarrow> bool \<Rightarrow> heap" where
  "subtract_call body h self other recompress =
     (let param = h other;
          (self', param') = body (h self) param recompress
      in h(self := self'))"



section \<open>Concrete inputs\<close>

text \<open>
  A scene with one raw triangle (the corners 0, x and y of the unit cube; 1.0 is the
  pattern \<open>0x3F800000\<close>) and no indexed geometry, and a scene with one indexed
  triangle over the same three vertices and an empty raw list.
\<close>

definition raw_scene :: scene where
  "raw_scene =
     \<lparr>m_materials = [], m_indexed_tris = [],
      m_triangles = [Vec3 0 0 0, Vec3 0x3F800000 0 0, Vec3 0 0x3F800000 0],
      m_textures = []\<rparr>"

definition indexed_scene :: scene where
  "indexed_scene =
     \<lparr>m_materials = [],
      m_indexed_tris =
        [\<lparr>vertices_idx = (0, 1, 2), tex_coord_idx = (0, 0, 0), normals_idx = (0, 0, 0),
          material_idx = 0\<rparr>],
      m_triangles = [],
      m_textures = []\<rparr>"

text \<open>
  A little-endian machine on which \<^verbatim>\<open>mesh.obj\<close> loads as the scene above,
  \<^verbatim>\<open>out.bin\<close> can be written and nothing else can, and the builder accepts the depths
  from 1 to 31 and throws on every other depth.
\<close>

definition example_env :: env where
  "example_env =
     \<lparr>host = Little_endian,
      scene_load = (\<lambda>f. if f = ''mesh.obj'' then Some raw_scene else None),
      image_decodes = (\<lambda>f t. False),
      builder = (\<lambda>sc d. if 1 \<le> d \<and> d \<le> 31
                          then Some [Node (- 1) (- 1) (- 1) (- 1) (- 1) (- 1) (- 1) (- 1)]
                          else None),
      out_opens = (\<lambda>p. p = ''out.bin'')\<rparr>"

text \<open>
  A body for the two editor calls that works in place on both objects it is given: it
  shifts its parameter, appends it to the receiver and compresses on request. Two pools
  at the addresses 0 and 1 of a heap.
\<close>

definition in_place_body :: "node_pool \<Rightarrow> node_pool \<Rightarrow> bool \<Rightarrow> node_pool \<times> node_pool" where
  "in_place_body self other recompress =
     (let shifted = shift_indexes (word_of_nat (length self)) other;
          joined = self @ shifted
      in (if recompress then compress 1 joined else joined, shifted))"

definition two_pools :: heap where
  "two_pools =
     (\<lambda>a. if a = 0 then [Node (- 1) 0 0 0 0 0 0 0, Node 1 1 0 0 0 0 0 0]
          else if a = 1 then [Node 0 (- 1) 0 0 0 0 0 0, Node 0 0 1 1 0 0 0 0]
          else [])"

text \<open>
  The property of a compressed arena: the nodes at two distinct indices are never equal
  under \<^verbatim>\<open>operator==\<close>.
\<close>

definition no_equal_nodes :: "node_pool \<Rightarrow> bool" where
  "no_equal_nodes nodes =
     (\<forall>i < length nodes. \<forall>j < length nodes. i \<noteq> j \<longrightarrow> \<not> node_eq (nodes ! i) (nodes ! j))"

section \<open>Properties of the node type and of its hash\<close>

lemma children_length: "length (children n) = 8"
  by (cases n) simp

lemma children_inject: "children a = children b \<longleftrightarrow> a = b"
  by (cases a; cases b) simp

lemma array_eq_iff: "array_eq xs ys \<longleftrightarrow> xs = ys"
  by (induction xs ys rule: array_eq.induct) auto

lemma node_eq_iff: "node_eq a b \<longleftrightarrow> a = b"
  by (simp add: node_eq_def array_eq_iff children_inject)

text \<open>
  C1: two nodes that \<^verbatim>\<open>operator==\<close> finds equal (all eight slots agree) have the same
  \<^verbatim>\<open>std::hash\<close> value.
\<close>

theorem equal_nodes_hash_equal: "node_eq a b \<Longrightarrow> hash a = hash b"
  by (simp add: node_eq_iff)

text \<open>
  The witness compares a node written with \<open>-1\<close> in its leaf slots with the same node
  written with the unsigned pattern of \<open>-1\<close>.
\<close>

theorem equal_nodes_hash_equal_witness:
  "node_eq (Node 0 (- 1) 3 0 0 0 (- 1) 2) (Node 0 4294967295 3 0 0 0 4294967295 2) \<and>
   hash (Node 0 (- 1) 3 0 0 0 (- 1) 2) = hash (Node 0 4294967295 3 0 0 0 4294967295 2)"
  using equal_nodes_hash_equal
    [of "Node 0 (- 1) 3 0 0 0 (- 1) 2" "Node 0 4294967295 3 0 0 0 4294967295 2"]
  by (simp add: node_eq_def)

subsection \<open>The shifts of the code are the rotations of the specification\<close>

lemma rotl_shift_or:
  fixes k :: "32 word"
  assumes "0 < r" "r < 32"
  shows "word_rotl r k = push_bit r k OR drop_bit (32 - r) k"
proof (rule bit_word_eqI)
  fix n :: nat
  assume "n < LENGTH(32)"
  then have n: "n < 32" by simp
  show "bit (word_rotl r k) n = bit (push_bit r k OR drop_bit (32 - r) k) n"
  proof (cases "n < r")
    case True
    with n assms have "(n + 32 - r mod 32) mod 32 = 32 - r + n" by simp
    with True n show ?thesis
      by (simp add: bit_word_rotl_iff bit_or_iff bit_push_bit_iff bit_drop_bit_eq)
  next
    case False
    with n assms have "(n + 32 - r mod 32) mod 32 = n - r" by (simp add: mod_if)
    moreover have "\<not> bit k (32 - r + n)"
      using False assms by (auto dest: bit_imp_le_length)
    ultimately show ?thesis using False n
      by (simp add: bit_word_rotl_iff bit_or_iff bit_push_bit_iff bit_drop_bit_eq)
  qed
qed

lemma spec_mix_eq: "spec_mix h k = murmur_round h k"
  by (simp add: spec_mix_def murmur_round_def rotl32_def rotl_shift_or Let_def)

lemma murmur_loop_foldl: "murmur_loop h ks = foldl spec_mix h ks"
  by (induction ks arbitrary: h) (simp_all add: spec_mix_eq)

text \<open>
  C2: the hash of a node is the value of the specification's schedule (seed 0, the
  eight slots mixed in slot order with the two rotations, the finaliser that starts
  with \<open>h ^= 8\<close>), as an unsigned number widened to \<^verbatim>\<open>size_t\<close>.
\<close>

theorem hash_is_spec_hash: "hash n = ucast (spec_hash n) \<and> unat (hash n) = unat (spec_hash n)"
proof -
  have "murmur_hasher32 (children n) = spec_hash n"
    by (simp add: spec_hash_def murmur_hasher32_def spec_finalise_def murmur_loop_foldl
        children_length Let_def)
  then have h: "hash n = ucast (spec_hash n)"
    by (simp add: hash_def)
  have "unat (ucast (spec_hash n) :: 64 word) = unat (spec_hash n)"
    by (simp add: unsigned_ucast_eq take_bit_nat_eq_self_iff
        order_less_le_trans [OF unsigned_less])
  with h show ?thesis by simp
qed

text \<open>Two values of the code's hash, computed by rewriting.\<close>

lemma hash_null: "hash null = 874597934"
  by (simp add: hash_def null_def murmur_hasher32_def murmur_round_def)

lemma hash_one_to_eight: "hash (Node 1 2 3 4 5 6 7 8) = 241801917"
  by (simp add: hash_def murmur_hasher32_def murmur_round_def)

text \<open>
  C9: \<^verbatim>\<open>value(i)\<close> returns slot \<open>i\<close> for \<open>i < 8\<close>, an index inside the array, and
  throws \<^verbatim>\<open>std::out_of_range\<close> for every \<open>i \<ge> 8\<close>.
\<close>

theorem value_at_checked:
  "(unat i < 8 \<longrightarrow> value_at n i = Inr (children n ! unat i) \<and> unat i < length (children n)) \<and>
   (8 \<le> unat i \<longrightarrow> value_at n i = Inl Out_of_range)"
  by (simp add: value_at_def children_length)

theorem value_at_checked_witness:
  "value_at (Node 10 11 12 13 14 15 16 17) 7 = Inr 17 \<and>
   value_at (Node 10 11 12 13 14 15 16 17) 8 = Inl Out_of_range \<and>
   value_at (Node 10 11 12 13 14 15 16 17) 18446744073709551615 = Inl Out_of_range"
  using value_at_checked [of 7 "Node 10 11 12 13 14 15 16 17"]
    value_at_checked [of 8 "Node 10 11 12 13 14 15 16 17"]
    value_at_checked [of 18446744073709551615 "Node 10 11 12 13 14 15 16 17"]
  by simp

lemma has_value_loop_iff: "has_value_loop xs \<longleftrightarrow> (\<exists>c \<in> set xs. c \<noteq> 0)"
  by (induction xs) auto

text \<open>
  C10: \<^verbatim>\<open>has_value()\<close>, and with it the conversion to \<^verbatim>\<open>bool\<close>, is false exactly
  for the node that equals \<^verbatim>\<open>null()\<close>, which is the node whose eight slots are 0.
\<close>

theorem has_value_false_iff_null:
  "(\<not> has_value n \<longleftrightarrow> node_eq n null) \<and>
   (\<not> to_bool n \<longleftrightarrow> node_eq n null) \<and>
   (node_eq n null \<longleftrightarrow> children n = [0, 0, 0, 0, 0, 0, 0, 0])"
  by (cases n) (auto simp: has_value_def to_bool_def node_eq_def null_def)

section \<open>Compression leaves no two equal nodes\<close>

lemma compress_loop_distinct:
  "distinct out \<Longrightarrow> dom table = set out \<Longrightarrow>
   distinct (compress_loop base i ns remap table out)"
proof (induction ns arbitrary: i remap table out)
  case Nil
  then show ?case by simp
next
  case (Cons n ns)
  let ?n' = "map_node (rewrite_slot remap) n"
  show ?case
  proof (cases "table ?n'")
    case None
    then have "?n' \<notin> dom table" by (simp add: domIff)
    then have fresh: "?n' \<notin> set out" using Cons.prems(2) by simp
    have "distinct (compress_loop base (i + 1) ns (remap(i + base \<mapsto> length out + base))
             (table(?n' \<mapsto> length out + base)) (out @ [?n']))"
    proof (rule Cons.IH)
      show "distinct (out @ [?n'])" using fresh Cons.prems(1) by simp
      show "dom (table(?n' \<mapsto> length out + base)) = set (out @ [?n'])"
        using Cons.prems(2) by simp
    qed
    with None show ?thesis by (simp add: append_def Let_def)
  next
    case (Some j)
    have "distinct (compress_loop base (i + 1) ns (remap(i + base \<mapsto> j)) table out)"
      by (rule Cons.IH) (use Cons.prems in auto)
    with Some show ?thesis by (simp add: Let_def)
  qed
qed

lemma compress_distinct: "distinct (compress base nodes)"
  by (simp add: compress_def compress_loop_distinct)

lemma no_equal_nodes_compress: "no_equal_nodes (compress base nodes)"
  using compress_distinct [of base nodes]
  by (auto simp: no_equal_nodes_def node_eq_iff distinct_conv_nth)

text \<open>
  C3: after \<open>compress\<close> no two nodes at distinct indices of the arena are equal, and
  the same holds for the arena that \<open>combine\<close> or \<open>subtract\<close> leaves when it is called
  with \<open>recompress\<close> set, whatever the recursive step did before.
\<close>

theorem compressed_arena_has_no_equal_nodes:
  "no_equal_nodes (compress base nodes) \<and>
   no_equal_nodes (combine base fuse self other overwrite True) \<and>
   no_equal_nodes (subtract base fuse' self other True)"
  by (simp add: combine_def subtract_def Let_def no_equal_nodes_compress)

text \<open>
  With indices from 1: the second node repeats the first, so the third node's slot 2 is
  redirected to index 1 and two distinct nodes remain.
\<close>

theorem compressed_arena_has_no_equal_nodes_witness:
  "compress 1 [Node (- 1) 0 0 0 0 0 0 0, Node (- 1) 0 0 0 0 0 0 0, Node 1 2 0 0 0 0 0 0]
     = [Node (- 1) 0 0 0 0 0 0 0, Node 1 1 0 0 0 0 0 0] \<and>
   \<not> node_eq
     (compress 1 [Node (- 1) 0 0 0 0 0 0 0, Node (- 1) 0 0 0 0 0 0 0, Node 1 2 0 0 0 0 0 0] ! 0)
     (compress 1 [Node (- 1) 0 0 0 0 0 0 0, Node (- 1) 0 0 0 0 0 0 0, Node 1 2 0 0 0 0 0 0] ! 1)"
proof -
  let ?A = "[Node (- 1) 0 0 0 0 0 0 0, Node (- 1) 0 0 0 0 0 0 0, Node 1 2 0 0 0 0 0 0]"
  have c: "compress 1 ?A = [Node (- 1) 0 0 0 0 0 0 0, Node 1 1 0 0 0 0 0 0]"
    by (simp add: compress_def rewrite_slot_def positive_def append_def Let_def)
  have "no_equal_nodes (compress 1 ?A)"
    using compressed_arena_has_no_equal_nodes [of 1 ?A] by simp
  from this [unfolded no_equal_nodes_def, rule_format, of 0 1] c show ?thesis by simp
qed

section \<open>The other pool is passed by value\<close>

text \<open>
  C4: a call of \<open>combine\<close> or \<open>subtract\<close> leaves the caller's other pool as it was,
  the same number of nodes with the same slots, whatever the body does to the receiver
  and to its parameter. The two pools are two objects: the other pool is not the
  receiver itself.
\<close>

theorem other_pool_unchanged:
  assumes "self \<noteq> other"
  shows "combine_call body h self other overwrite recompress other = h other \<and>
         subtract_call body' h self other recompress other = h other \<and>
         length (combine_call body h self other overwrite recompress other) = length (h other) \<and>
         length (subtract_call body' h self other recompress other) = length (h other) \<and>
         map children (combine_call body h self other overwrite recompress other)
           = map children (h other) \<and>
         map children (subtract_call body' h self other recompress other)
           = map children (h other)"
  using assms by (simp add: combine_call_def subtract_call_def Let_def split: prod.splits)

text \<open>
  The witness runs the in-place body: the receiver at address 0 grows by the shifted
  nodes, the pool at address 1 keeps its two nodes.
\<close>

theorem other_pool_unchanged_witness:
  "(0::nat) \<noteq> 1 \<and>
   combine_call (\<lambda>self other overwrite. in_place_body self other) two_pools 0 1 False False 1
     = [Node 0 (- 1) 0 0 0 0 0 0, Node 0 0 1 1 0 0 0 0] \<and>
   subtract_call in_place_body two_pools 0 1 False 1
     = [Node 0 (- 1) 0 0 0 0 0 0, Node 0 0 1 1 0 0 0 0] \<and>
   combine_call (\<lambda>self other overwrite. in_place_body self other) two_pools 0 1 False False 0
     = [Node (- 1) 0 0 0 0 0 0 0, Node 1 1 0 0 0 0 0 0,
        Node 0 (- 1) 0 0 0 0 0 0, Node 0 0 3 3 0 0 0 0]"
proof -
  have ne: "(0::nat) \<noteq> 1" by simp
  have o: "two_pools 1 = [Node 0 (- 1) 0 0 0 0 0 0, Node 0 0 1 1 0 0 0 0]"
    by (simp add: two_pools_def)
  note t = other_pool_unchanged [OF ne,
      where body = "\<lambda>self other overwrite. in_place_body self other" and h = two_pools
        and overwrite = False and recompress = False and body' = in_place_body]
  from t o have 1:
    "combine_call (\<lambda>self other overwrite. in_place_body self other) two_pools 0 1 False False 1
       = [Node 0 (- 1) 0 0 0 0 0 0, Node 0 0 1 1 0 0 0 0]"
    by simp
  from t o have 2:
    "subtract_call in_place_body two_pools 0 1 False 1
       = [Node 0 (- 1) 0 0 0 0 0 0, Node 0 0 1 1 0 0 0 0]"
    by simp
  have 3:
    "combine_call (\<lambda>self other overwrite. in_place_body self other) two_pools 0 1 False False 0
       = [Node (- 1) 0 0 0 0 0 0 0, Node 1 1 0 0 0 0 0 0,
          Node 0 (- 1) 0 0 0 0 0 0, Node 0 0 3 3 0 0 0 0]"
    by (simp add: combine_call_def in_place_body_def two_pools_def shift_indexes_def
        positive_def Let_def)
  from ne 1 2 3 show ?thesis by blast
qed

section \<open>Duplicating and subdividing a child\<close>









section \<open>The binary arena file\<close>

lemma bytes_le32:
  fixes w :: "32 word"
  shows "ucast (ucast w :: 8 word) OR
     push_bit 8 (ucast (ucast (drop_bit 8 w) :: 8 word)) OR
     push_bit 16 (ucast (ucast (drop_bit 16 w) :: 8 word)) OR
     push_bit 24 (ucast (ucast (drop_bit 24 w) :: 8 word)) = w" (is "?lhs = w")
proof (rule bit_word_eqI)
  fix n :: nat
  assume "n < LENGTH(32)"
  then consider "n < 8" | "8 \<le> n" "n < 16" | "16 \<le> n" "n < 24" | "24 \<le> n" "n < 32"
    by fastforce
  then show "bit ?lhs n = bit w n"
    by cases (auto simp add: bit_simps)
qed

lemma bytes_le64:
  fixes w :: "64 word"
  shows "ucast (ucast w :: 8 word) OR
     push_bit 8 (ucast (ucast (drop_bit 8 w) :: 8 word)) OR
     push_bit 16 (ucast (ucast (drop_bit 16 w) :: 8 word)) OR
     push_bit 24 (ucast (ucast (drop_bit 24 w) :: 8 word)) OR
     push_bit 32 (ucast (ucast (drop_bit 32 w) :: 8 word)) OR
     push_bit 40 (ucast (ucast (drop_bit 40 w) :: 8 word)) OR
     push_bit 48 (ucast (ucast (drop_bit 48 w) :: 8 word)) OR
     push_bit 56 (ucast (ucast (drop_bit 56 w) :: 8 word)) = w" (is "?lhs = w")
proof (rule bit_word_eqI)
  fix n :: nat
  assume "n < LENGTH(64)"
  then consider "n < 8" | "8 \<le> n" "n < 16" | "16 \<le> n" "n < 24" | "24 \<le> n" "n < 32"
    | "32 \<le> n" "n < 40" | "40 \<le> n" "n < 48" | "48 \<le> n" "n < 56" | "56 \<le> n" "n < 64"
    by fastforce
  then show "bit ?lhs n = bit w n"
    by cases (auto simp add: bit_simps)
qed

lemma u32_roundtrip: "u32_of_bytes e (bytes_of_u32 e w) = w"
  by (cases e) (simp_all add: u32_of_bytes_def bytes_of_u32_def bytes_le32)

lemma u64_roundtrip: "u64_of_bytes e (bytes_of_u64 e w) = w"
  by (cases e) (simp_all add: u64_of_bytes_def bytes_of_u64_def bytes_le64)

lemma length_bytes_of_u32: "length (bytes_of_u32 e w) = 4"
  by (cases e) (simp_all add: bytes_of_u32_def)

lemma length_bytes_of_u64: "length (bytes_of_u64 e w) = 8"
  by (cases e) (simp_all add: bytes_of_u64_def)

lemma length_bytes_of_node: "length (bytes_of_node e n) = 32"
  by (cases n) (simp add: bytes_of_node_def length_bytes_of_u32)

lemma node_roundtrip: "node_of_bytes e (bytes_of_node e n) = n"
  by (cases n) (simp add: node_of_bytes_def bytes_of_node_def length_bytes_of_u32 u32_roundtrip)

lemma length_records: "length (concat (map (bytes_of_node e) nodes)) = 32 * length nodes"
  by (induction nodes) (simp_all add: length_bytes_of_node)

lemma read_nodes_roundtrip:
  "read_nodes e (length nodes) (concat (map (bytes_of_node e) nodes)) = nodes"
  by (induction nodes) (simp_all add: length_bytes_of_node node_roundtrip)

lemma record_at:
  "k < length nodes \<Longrightarrow>
   take 32 (drop (32 * k) (concat (map (bytes_of_node e) nodes))) = bytes_of_node e (nodes ! k)"
proof (induction nodes arbitrary: k)
  case Nil
  then show ?case by simp
next
  case (Cons n ns)
  show ?case
  proof (cases k)
    case 0
    then show ?thesis by (simp add: length_bytes_of_node)
  next
    case (Suc j)
    with Cons.prems have "j < length ns" by simp
    from Cons.IH [OF this] Suc show ?thesis
      by (simp add: length_bytes_of_node)
  qed
qed

lemma serialize_length: "length (serialize e nodes) = 8 + 32 * length nodes"
  by (simp add: serialize_def length_bytes_of_u64 length_records)

lemma serialize_head: "take 8 (serialize e nodes) = bytes_of_u64 e (word_of_nat (length nodes))"
  by (simp add: serialize_def length_bytes_of_u64)

lemma serialize_tail: "drop 8 (serialize e nodes) = concat (map (bytes_of_node e) nodes)"
  by (simp add: serialize_def length_bytes_of_u64)

lemma serialize_count:
  "length nodes < 2 ^ 64 \<Longrightarrow> unat (u64_of_bytes e (take 8 (serialize e nodes))) = length nodes"
  by (simp add: serialize_head u64_roundtrip unat_of_nat)

lemma serialize_record:
  assumes "k < length nodes"
  shows "take 32 (drop (8 + 32 * k) (serialize e nodes)) = bytes_of_node e (nodes ! k)"
proof -
  from assms
  have "take 32 (drop (32 * k) (drop 8 (serialize e nodes))) = bytes_of_node e (nodes ! k)"
    unfolding serialize_tail by (rule record_at)
  then show ?thesis by (simp add: add.commute)
qed

lemma deserialize_serialize:
  assumes "length nodes < 2 ^ 64"
  shows "deserialize e (serialize e nodes) =
    (if slots_in_range (length nodes) nodes then Inr nodes else Inl CorruptArena)"
  using assms
  by (simp add: deserialize_def serialize_length serialize_count serialize_tail
      read_nodes_roundtrip Let_def)

text \<open>
  C6: the file of an arena of \<open>count\<close> nodes (a vector's size fits \<^verbatim>\<open>size_t\<close>) has
  \<open>8 + 32 * count\<close> bytes: the count in the first eight, as an unsigned 64-bit integer
  in the host's byte order, then record \<open>k\<close> at offset \<open>8 + 32 * k\<close>. Reading the
  count and the records back gives the arena, and \<open>deserialize\<close> returns it for every
  arena whose positive slots are below the count, which is the check the specification
  gives the reader.
\<close>

theorem serialize_format_and_inverse:
  assumes "length nodes < 2 ^ 64"
  shows "length (serialize e nodes) = 8 + 32 * length nodes \<and>
    take 8 (serialize e nodes) = bytes_of_u64 e (word_of_nat (length nodes)) \<and>
    unat (u64_of_bytes e (take 8 (serialize e nodes))) = length nodes \<and>
    (\<forall>k < length nodes.
       take 32 (drop (8 + 32 * k) (serialize e nodes)) = bytes_of_node e (nodes ! k)) \<and>
    (\<forall>k < length nodes. node_of_bytes e (bytes_of_node e (nodes ! k)) = nodes ! k) \<and>
    read_nodes e (length nodes) (drop 8 (serialize e nodes)) = nodes \<and>
    (slots_in_range (length nodes) nodes \<longrightarrow> deserialize e (serialize e nodes) = Inr nodes)"
proof (intro conjI allI impI)
  show "length (serialize e nodes) = 8 + 32 * length nodes"
    by (rule serialize_length)
  show "take 8 (serialize e nodes) = bytes_of_u64 e (word_of_nat (length nodes))"
    by (rule serialize_head)
  show "unat (u64_of_bytes e (take 8 (serialize e nodes))) = length nodes"
    using assms by (rule serialize_count)
  show "take 32 (drop (8 + 32 * k) (serialize e nodes)) = bytes_of_node e (nodes ! k)"
    if "k < length nodes" for k
    using that by (rule serialize_record)
  show "node_of_bytes e (bytes_of_node e (nodes ! k)) = nodes ! k" for k
    by (rule node_roundtrip)
  show "read_nodes e (length nodes) (drop 8 (serialize e nodes)) = nodes"
    by (simp add: serialize_tail read_nodes_roundtrip)
  show "deserialize e (serialize e nodes) = Inr nodes"
    if "slots_in_range (length nodes) nodes"
    using that assms by (simp add: deserialize_serialize)
qed

theorem serialize_format_and_inverse_witness:
  "length [Node (- 1) 0 0 0 0 0 0 0, Node 1 0 0 0 (- 1) 0 0 1] < (2::nat) ^ 64 \<and>
   slots_in_range 2 [Node (- 1) 0 0 0 0 0 0 0, Node 1 0 0 0 (- 1) 0 0 1] \<and>
   serialize Little_endian [Node (- 1) 0 0 0 0 0 0 0, Node 1 0 0 0 (- 1) 0 0 1] =
     [2, 0, 0, 0, 0, 0, 0, 0,
      255, 255, 255, 255, 0, 0, 0, 0, 0, 0, 0, 0, 0, 0, 0, 0,
      0, 0, 0, 0, 0, 0, 0, 0, 0, 0, 0, 0, 0, 0, 0, 0,
      1, 0, 0, 0, 0, 0, 0, 0, 0, 0, 0, 0, 0, 0, 0, 0,
      255, 255, 255, 255, 0, 0, 0, 0, 0, 0, 0, 0, 1, 0, 0, 0] \<and>
   length (serialize Little_endian [Node (- 1) 0 0 0 0 0 0 0, Node 1 0 0 0 (- 1) 0 0 1]) = 72 \<and>
   deserialize Little_endian
     (serialize Little_endian [Node (- 1) 0 0 0 0 0 0 0, Node 1 0 0 0 (- 1) 0 0 1])
     = Inr [Node (- 1) 0 0 0 0 0 0 0, Node 1 0 0 0 (- 1) 0 0 1]"
proof -
  let ?A = "[Node (- 1) 0 0 0 0 0 0 0, Node 1 0 0 0 (- 1) 0 0 1]"
  have l: "length ?A < (2::nat) ^ 64" by simp
  have r: "slots_in_range 2 ?A" by (simp add: slots_in_range_def positive_def)
  have b: "serialize Little_endian ?A =
     [2, 0, 0, 0, 0, 0, 0, 0,
      255, 255, 255, 255, 0, 0, 0, 0, 0, 0, 0, 0, 0, 0, 0, 0,
      0, 0, 0, 0, 0, 0, 0, 0, 0, 0, 0, 0, 0, 0, 0, 0,
      1, 0, 0, 0, 0, 0, 0, 0, 0, 0, 0, 0, 0, 0, 0, 0,
      255, 255, 255, 255, 0, 0, 0, 0, 0, 0, 0, 0, 1, 0, 0, 0]"
    by code_simp
  note t = serialize_format_and_inverse [OF l, of Little_endian]
  from t have "length (serialize Little_endian ?A) = 8 + 32 * length ?A" by blast
  then have n: "length (serialize Little_endian ?A) = 72" by simp
  from t have "slots_in_range (length ?A) ?A \<longrightarrow>
      deserialize Little_endian (serialize Little_endian ?A) = Inr ?A" by blast
  moreover have "slots_in_range (length ?A) ?A"
    by (simp add: slots_in_range_def positive_def)
  ultimately have d: "deserialize Little_endian (serialize Little_endian ?A) = Inr ?A"
    by blast
  from l r b n d show ?thesis by blast
qed

text \<open>
  The reader's check at work: the node of this arena refers to the index 1, which is
  not below the count 1, and the file is rejected.
\<close>

lemma deserialize_rejects_slot_out_of_range:
  "deserialize Little_endian (serialize Little_endian [Node 1 0 0 0 0 0 0 0]) = Inl CorruptArena"
proof -
  have "\<not> slots_in_range (length [Node 1 0 0 0 0 0 0 0]) [Node 1 0 0 0 0 0 0 0]"
    by (simp add: slots_in_range_def positive_def)
  then show ?thesis
    using deserialize_serialize [of "[Node 1 0 0 0 0 0 0 0]" Little_endian] by simp
qed

section \<open>Triangles of a scene\<close>

text \<open>
  C7 as stated fails. For the scene with one raw triangle the count accessor returns
  3, the number of vertices, and \<open>get_triangle 1\<close> is none although 1 is below 3. For
  the scene with indexed geometry only, the count accessor returns 1, the number of
  indexed triangles, and \<open>get_triangle 0\<close>, which reads the raw list, is none.
\<close>

theorem get_triangle_counterexample:
  "get_triangles_count raw_scene = 3 \<and> unat (1 :: size_t) < get_triangles_count raw_scene \<and>
   get_triangle raw_scene 1 = Inr None \<and>
   get_triangles_count indexed_scene = 1 \<and>
   unat (0 :: size_t) < get_triangles_count indexed_scene \<and>
   get_triangle indexed_scene 0 = Inr None"
  by (simp add: raw_scene_def indexed_scene_def get_triangles_count_def get_triangle_def)

lemma unat_times_3: "3 * unat (i :: 64 word) < 2 ^ 64 \<Longrightarrow> unat (i * 3) = 3 * unat i"
  by (simp add: unat_word_ariths mult.commute)

text \<open>
  C7 amended: the range of \<open>get_triangle\<close> is the raw triangle count,
  \<^verbatim>\<open>m_triangles.size() / 3\<close>. Below it the accessor returns the three vertices of the
  triangle. When the raw list holds whole triangles, it returns none exactly from that
  count on, for the indices whose offset \<open>3 * i\<close> does not wrap. (The size of a vector
  fits \<^verbatim>\<open>size_t\<close>.)
\<close>

theorem get_triangle_raw_range:
  assumes "length (m_triangles s) < 2 ^ 64"
  shows "(unat i < get_raw_triangles_count s \<longrightarrow>
           get_triangle s i =
             Inr (Some (m_triangles s ! (3 * unat i), m_triangles s ! (3 * unat i + 1),
                        m_triangles s ! (3 * unat i + 2)))) \<and>
         (3 dvd length (m_triangles s) \<and> 3 * unat i < 2 ^ 64 \<longrightarrow>
           (get_triangle s i = Inr None \<longleftrightarrow> get_raw_triangles_count s \<le> unat i))"
proof (intro conjI impI)
  assume a: "unat i < get_raw_triangles_count s"
  then have b: "3 * unat i + 3 \<le> length (m_triangles s)"
    by (simp add: get_raw_triangles_count_def)
  with assms have "3 * unat i < 2 ^ 64" by simp
  then have "unat (i * 3) = 3 * unat i" by (rule unat_times_3)
  with b show "get_triangle s i =
             Inr (Some (m_triangles s ! (3 * unat i), m_triangles s ! (3 * unat i + 1),
                        m_triangles s ! (3 * unat i + 2)))"
    by (simp add: get_triangle_def Let_def)
next
  assume "3 dvd length (m_triangles s) \<and> 3 * unat i < 2 ^ 64"
  then obtain q where q: "length (m_triangles s) = 3 * q" and "3 * unat i < 2 ^ 64"
    by (auto elim: dvdE)
  then have u: "unat (i * 3) = 3 * unat i" by (simp add: unat_times_3)
  show "get_triangle s i = Inr None \<longleftrightarrow> get_raw_triangles_count s \<le> unat i"
    using q by (auto simp add: get_triangle_def get_raw_triangles_count_def Let_def u)
qed

theorem get_triangle_raw_range_witness:
  "length (m_triangles raw_scene) < (2::nat) ^ 64 \<and>
   unat (0 :: size_t) < get_raw_triangles_count raw_scene \<and>
   get_triangle raw_scene 0 = Inr (Some (Vec3 0 0 0, Vec3 0x3F800000 0 0, Vec3 0 0x3F800000 0)) \<and>
   3 dvd length (m_triangles raw_scene) \<and> 3 * unat (1 :: size_t) < (2::nat) ^ 64 \<and>
   get_raw_triangles_count raw_scene \<le> unat (1 :: size_t) \<and>
   get_triangle raw_scene 1 = Inr None"
proof -
  have l: "length (m_triangles raw_scene) < (2::nat) ^ 64" by (simp add: raw_scene_def)
  have c: "get_raw_triangles_count raw_scene = 1"
    by (simp add: get_raw_triangles_count_def raw_scene_def)
  have "length (m_triangles raw_scene) = 3" by (simp add: raw_scene_def)
  then have d: "3 dvd length (m_triangles raw_scene)" by simp
  from get_triangle_raw_range [OF l, of 0] c
  have t0: "get_triangle raw_scene 0 =
      Inr (Some (Vec3 0 0 0, Vec3 0x3F800000 0 0, Vec3 0 0x3F800000 0))"
    by (simp add: raw_scene_def)
  from get_triangle_raw_range [OF l, of 1] c d
  have t1: "get_triangle raw_scene 1 = Inr None"
    by simp
  from l c d t0 t1 show ?thesis by simp
qed

text \<open>
  Two more values of the accessor: a raw list that does not hold whole triangles, and
  an index whose offset wraps to 2. Both spans leave the vector.
\<close>

lemma get_triangle_span_past_end:
  "get_triangle (raw_scene\<lparr>m_triangles := m_triangles raw_scene @ [Vec3 0 0 0]\<rparr>) 1
     = Inl Span_past_end \<and>
   get_triangle raw_scene 6148914691236517206 = Inl Span_past_end"
  by (simp add: raw_scene_def get_triangle_def)

section \<open>Exit codes of the tool\<close>

lemma atoi_257: "atoi ''257'' = 257"
  by (simp add: atoi_def strtol_def isspace_def isdigit_def)

lemma atoi_5: "atoi ''5'' = 5"
  by (simp add: atoi_def strtol_def isspace_def isdigit_def)

text \<open>
  C8 as stated fails. The depth argument 257 is outside 1 to 31; it is truncated to
  the \<^verbatim>\<open>uint8_t\<close> 1 on its way into \<open>create\<close>, the build runs at depth 1, and the
  tool exits with 0.
\<close>

theorem main_counterexample:
  "fst (main example_env [''oasis'', ''mesh.obj'', ''out.bin'', ''257'']) = Exit 0 \<and>
   sint (atoi ''257'') = 257 \<and> \<not> (1 \<le> sint (atoi ''257'') \<and> sint (atoi ''257'') \<le> 31)"
  by (simp add: main_def create_def example_env_def raw_scene_def load_textures_def atoi_257)

text \<open>
  C8 amended: the tool exits with 1 when fewer than three arguments follow its name
  and when the scene does not load. When the scene loads, its textures decode, the
  build returns and the output stream opens, the tool writes the arena and exits with
  0, whatever the depth argument is: the build is given the low eight bits of the
  \<^verbatim>\<open>int\<close> that \<^verbatim>\<open>atoi\<close> reads, and no range is checked.
\<close>

theorem main_exit_codes:
  "(length argv < 4 \<longrightarrow> fst (main w argv) = Exit 1) \<and>
   (4 \<le> length argv \<and> scene_load w (argv ! 1) = None \<longrightarrow> fst (main w argv) = Exit 1) \<and>
   (4 \<le> length argv \<and> scene_load w (argv ! 1) = Some sc \<and>
    load_textures (image_decodes w (argv ! 1)) sc = Some (lt, sc') \<and>
    builder w sc' (uint (ucast (atoi (argv ! 3)) :: 8 word)) = Some nodes \<and>
    out_opens w (argv ! 2) \<longrightarrow>
      main w argv = (Exit 0, Some (argv ! 2, serialize (host w) nodes)))"
  by (simp add: main_def create_def Let_def)

theorem main_exit_codes_witness:
  "fst (main example_env [''oasis'', ''mesh.obj'', ''out.bin'']) = Exit 1 \<and>
   fst (main example_env [''oasis'', ''absent.obj'', ''out.bin'', ''5'']) = Exit 1 \<and>
   main example_env [''oasis'', ''mesh.obj'', ''out.bin'', ''5''] =
     (Exit 0, Some (''out.bin'',
        serialize Little_endian [Node (- 1) (- 1) (- 1) (- 1) (- 1) (- 1) (- 1) (- 1)]))"
proof -
  have 1: "fst (main example_env [''oasis'', ''mesh.obj'', ''out.bin'']) = Exit 1"
    using main_exit_codes [of "[''oasis'', ''mesh.obj'', ''out.bin'']" example_env]
    by simp
  have 2: "fst (main example_env [''oasis'', ''absent.obj'', ''out.bin'', ''5'']) = Exit 1"
    using main_exit_codes [of "[''oasis'', ''absent.obj'', ''out.bin'', ''5'']" example_env]
    by (simp add: example_env_def)
  have 3: "main example_env [''oasis'', ''mesh.obj'', ''out.bin'', ''5''] =
     (Exit 0, Some (''out.bin'',
        serialize Little_endian [Node (- 1) (- 1) (- 1) (- 1) (- 1) (- 1) (- 1) (- 1)]))"
    using main_exit_codes [of "[''oasis'', ''mesh.obj'', ''out.bin'', ''5'']" example_env
        raw_scene False raw_scene "[Node (- 1) (- 1) (- 1) (- 1) (- 1) (- 1) (- 1) (- 1)]"]
    by (simp add: example_env_def load_textures_def raw_scene_def atoi_5)
  from 1 2 3 show ?thesis by simp
qed

text \<open>
  Digits beyond \<^verbatim>\<open>long\<close>: \<^verbatim>\<open>strtol\<close> saturates, the \<^verbatim>\<open>int\<close> is \<open>-1\<close>, and the
  depth passed on is 255. The builder of the example throws at that depth, and the
  process ends without an exit code of \<^verbatim>\<open>main\<close>.
\<close>

lemma atoi_saturates:
  "atoi ''9223372036854775812'' = - 1 \<and> atoi ''2147483653'' = - 2147483643"
  by (simp add: atoi_def strtol_def isspace_def isdigit_def)

lemma depth_of_saturated: "(ucast (atoi ''9223372036854775812'') :: 8 word) = 255"
  by (simp add: atoi_def strtol_def isspace_def isdigit_def)

lemma main_saturated_depth:
  "main example_env [''oasis'', ''mesh.obj'', ''out.bin'', ''9223372036854775812'']
     = (Terminate, None)"
  by (simp add: main_def create_def example_env_def raw_scene_def load_textures_def
      depth_of_saturated)

text \<open>
  The branch of \<open>create\<close> for a stream that does not open logs the failure and
  returns true all the same: nothing is written and the tool exits with 0.
\<close>

lemma main_output_not_written:
  "main example_env [''oasis'', ''mesh.obj'', ''missing/out.bin'', ''5''] = (Exit 0, None)"
  by (simp add: main_def create_def example_env_def raw_scene_def load_textures_def atoi_5)

end
